theory Spec2Isabelle
  imports Complex_Main
begin

section \<open>Values shared by the route handlers and the page\<close>

text \<open>
  An \<open>ArrayBuffer\<close> is a sequence of bytes, a JavaScript string a sequence of
  characters; both are lists of \<^typ>\<open>char\<close> here.
\<close>

type_synonym bytes = "char list"

text \<open>
  A value that a \<open>throw\<close> or a rejected promise carries: an instance of \<open>Error\<close>
  (a \<open>TypeError\<close>, \<open>RangeError\<close>, \<open>SyntaxError\<close>, ... with its \<open>message\<close>), or any
  other value. An \<open>await\<close> that may reject has a result of type \<open>js_exn + 'a\<close>.
\<close>

datatype js_exn = Error_instance string | Thrown_value

record js_file =
  file_name :: string
  file_type :: string
  file_bytes :: bytes

text \<open>A \<open>FormData\<close> object: its entries in order, each a name and a string or a file.\<close>

datatype form_value = Text_value string | File_value js_file

type_synonym form_data = "(string \<times> form_value) list"

text \<open>
  \<open>a || d\<close> where \<open>a\<close> is a string, \<open>null\<close> or \<open>undefined\<close>: the empty string is
  falsy, as \<open>null\<close> and \<open>undefined\<close> are.
\<close>

definition or_else :: "string option \<Rightarrow> string \<Rightarrow> string" where
  "or_else a d = (case a of None \<Rightarrow> d | Some s \<Rightarrow> if s = [] then d else s)"

text \<open>
  A call \<open>fetch(url, { method, headers, body })\<close>; \<open>http_method\<close> is the option
  \<open>method\<close>.
\<close>

record 'b fetch_call =
  url :: string
  http_method :: string
  headers :: "(string \<times> string) list"
  body :: 'b

section \<open>The proxy routes\<close>

text \<open>
  The incoming \<open>NextRequest\<close> as a handler can observe it: the bytes of the body that
  was received, what \<open>req.formData()\<close> resolves to and what \<open>req.text()\<close> resolves
  to. The two parsers are the runtime's; the request carries their results.
\<close>

record next_request =
  raw_body :: bytes
  req_formData :: "js_exn + form_data"
  req_text :: "js_exn + string"

text \<open>What a route hands to \<open>fetch\<close> as the body: a \<open>FormData\<close> object or a string.\<close>

datatype proxy_body = Form_body form_data | Text_body string

text \<open>
  The \<open>Response\<close> that \<open>fetch\<close> resolves to: \<open>response.status\<close>,
  \<open>response.headers.get(name)\<close> (\<open>None\<close> is \<open>null\<close>) and what
  \<open>response.arrayBuffer()\<close> resolves to.
\<close>

record backend_response =
  status :: nat
  headers_get :: "string \<Rightarrow> string option"
  arrayBuffer :: "js_exn + bytes"

record next_response =
  res_body :: bytes
  res_status :: nat
  res_headers :: "(string \<times> string) list"

text \<open>
  \<open>new NextResponse(raw, { status, headers })\<close>. \<open>NextResponse\<close> extends the
  \<open>Response\<close> of the Fetch standard, whose constructor throws a \<open>RangeError\<close> when
  \<open>status\<close> is outside 200..599 and a \<open>TypeError\<close> when a body is given (an
  \<open>ArrayBuffer\<close> is one, also when it is empty) together with a null body status
  (101, 204, 205, 304). The messages are the runtime's.
\<close>

definition null_body_status :: "nat \<Rightarrow> bool" where
  "null_body_status s = (s = 101 \<or> s = 204 \<or> s = 205 \<or> s = 304)"

definition new_NextResponse ::
  "bytes \<Rightarrow> nat \<Rightarrow> (string \<times> string) list \<Rightarrow> js_exn + next_response" where
  "new_NextResponse raw st hs =
     (if st < 200 \<or> 599 < st then
        Inl (Error_instance ''RangeError: init.status must be in the range of 200 to 599, inclusive.'')
      else if null_body_status st then
        Inl (Error_instance ''TypeError: Response constructor: Invalid response status code'')
      else Inr \<lparr>res_body = raw, res_status = st, res_headers = hs\<rparr>)"

text \<open>
  A run of a route handler: the calls of \<open>fetch\<close> it made, in order, and the response
  it returned, or the exception it was rejected with (nothing in the handlers catches
  one).
\<close>

record proxy_run =
  calls :: "proxy_body fetch_call list"
  answer :: "js_exn + next_response"

text \<open>
  \<open>app/api/consolidate/route.ts\<close>, \<open>POST\<close>. \<open>env\<close> is \<open>process.env\<close>, \<open>fetch\<close>
  the runtime's \<open>fetch\<close> (the backend and the network behind it).
\<close>

definition POST_consolidate ::
  "(string \<Rightarrow> string option) \<Rightarrow> (proxy_body fetch_call \<Rightarrow> js_exn + backend_response) \<Rightarrow>
   next_request \<Rightarrow> proxy_run" where
  "POST_consolidate env fetch req =
     (let backend = or_else (env ''BACKEND_INTERNAL_URL'') ''http://127.0.0.1:8000'' in
      case req_formData req of
        Inl e \<Rightarrow> \<lparr>calls = [], answer = Inl e\<rparr>
      | Inr form \<Rightarrow>
          (let call = \<lparr>url = backend @ ''/api/consolidate'', http_method = ''POST'',
                        headers = [], body = Form_body form\<rparr> in
           \<lparr>calls = [call],
            answer =
              (case fetch call of
                 Inl e \<Rightarrow> Inl e
               | Inr response \<Rightarrow>
                   (let contentType =
                          or_else (headers_get response ''content-type'') ''application/json'' in
                    case arrayBuffer response of
                      Inl e \<Rightarrow> Inl e
                    | Inr raw \<Rightarrow>
                        new_NextResponse raw (status response)
                          [(''content-type'', contentType)]))\<rparr>))"

text \<open>\<open>app/api/export-xlsx/route.ts\<close>, \<open>POST\<close>.\<close>

definition POST_export ::
  "(string \<Rightarrow> string option) \<Rightarrow> (proxy_body fetch_call \<Rightarrow> js_exn + backend_response) \<Rightarrow>
   next_request \<Rightarrow> proxy_run" where
  "POST_export env fetch req =
     (let backend = or_else (env ''BACKEND_INTERNAL_URL'') ''http://127.0.0.1:8000'' in
      case req_text req of
        Inl e \<Rightarrow> \<lparr>calls = [], answer = Inl e\<rparr>
      | Inr txt \<Rightarrow>
          (let call = \<lparr>url = backend @ ''/api/export-xlsx'', http_method = ''POST'',
                        headers = [(''Content-Type'', ''application/json'')],
                        body = Text_body txt\<rparr> in
           \<lparr>calls = [call],
            answer =
              (case fetch call of
                 Inl e \<Rightarrow> Inl e
               | Inr response \<Rightarrow>
                   (case arrayBuffer response of
                      Inl e \<Rightarrow> Inl e
                    | Inr raw \<Rightarrow>
                        new_NextResponse raw (status response)
                          [(''content-type'',
                            or_else (headers_get response ''content-type'')
                              ''application/vnd.openxmlformats-officedocument.spreadsheetml.sheet''),
                           (''content-disposition'',
                            or_else (headers_get response ''content-disposition'')
                              (''attachment; filename='' @ [CHR 0x22] @ ''consolidated.xlsx''
                                 @ [CHR 0x22]))]))\<rparr>))"

section \<open>The page\<close>

text \<open>
  \<open>app/page.tsx\<close>. The keys of \<open>Row\<close>, and a row as the object it is at run time:
  a map from keys to values, a value being \<open>null\<close>, a string or a number. The numbers
  are a type parameter \<open>'n\<close>, and \<open>Number\<close>, the runtime's conversion of a string to
  a number, is a parameter of \<open>updateRow\<close>. The key \<open>notes\<close> is \<open>notes_field\<close> here.
  The type \<open>Row\<close> declares \<open>account_name\<close> a string, but an edit can store \<open>null\<close>
  in it as in any other field, so every field holds any value.
\<close>

datatype row_key =
  account_number | account_name | y2022 | y2023 | y2024 | ttm
  | mapped_coa_code | mapped_coa_name | mapping_confidence | confidence | notes_field

datatype 'n cell = Null | Str string | Num 'n

type_synonym 'n row = "row_key \<Rightarrow> 'n cell option"

record meta_info =
  units :: "string option"
  ttm_present :: bool
  warnings :: "string list"

text \<open>
  The slots of the \<open>rows\<close> array: \<open>None\<close> is a slot that holds no object (a hole left
  by an assignment past the end; reading it gives \<open>undefined\<close>).
\<close>

record 'n ConsolidatedResult =
  meta :: meta_info
  rows :: "'n row option list"

definition numFields :: "row_key list" where
  "numFields = [y2022, y2023, y2024, ttm, mapping_confidence, confidence]"

record 'n page_state =
  files :: "js_file list"
  coaText :: string
  result :: "'n ConsolidatedResult option"
  loading :: bool
  error :: "string option"

text \<open>
  What the page hands to \<open>fetch\<close> as the body: the \<open>FormData\<close> it built, or
  \<open>JSON.stringify(result)\<close>.
\<close>

datatype 'n page_body = Page_form form_data | Page_json "'n ConsolidatedResult"

text \<open>
  The \<open>Response\<close> the page's \<open>fetch\<close> resolves to: its status (\<open>res.ok\<close> is a
  status in 200..299) and what \<open>res.text()\<close>, \<open>res.json()\<close> and \<open>res.blob()\<close>
  resolve to.
\<close>

record 'n page_response =
  page_status :: nat
  res_text :: "js_exn + string"
  res_json :: "js_exn + 'n ConsolidatedResult"
  res_blob :: "js_exn + bytes"

definition ok :: "'n page_response \<Rightarrow> bool" where
  "ok res = (200 \<le> page_status res \<and> page_status res \<le> 299)"

text \<open>
  What a handler does beyond setting state: a call of \<open>fetch\<close>, or the click on an
  anchor whose \<open>download\<close> is the file name and whose \<open>href\<close> is the blob's URL.
\<close>

datatype 'n effect = Fetch "'n page_body fetch_call" | Save_file string bytes

text \<open>
  A run of an event handler: the state once its \<open>set...\<close> calls are applied, its
  effects in order, and the exception that left it uncaught, if one did.
\<close>

record 'n page_run =
  state_after :: "'n page_state"
  effects :: "'n effect list"
  uncaught :: "js_exn option"

text \<open>Lines 39 to 43 of \<open>onRun\<close>: the form and the call of \<open>fetch\<close>.\<close>

definition consolidate_call :: "'n page_state \<Rightarrow> 'n page_body fetch_call" where
  "consolidate_call s =
     \<lparr>url = ''/api/consolidate'', http_method = ''POST'', headers = [],
      body = Page_form (map (\<lambda>f. (''pdfs'', File_value f)) (files s)
                          @ [(''coa_csv'', Text_value (coaText s))])\<rparr>"

text \<open>
  The \<open>try\<close> block of \<open>onRun\<close>: the data to store, or the exception that reaches
  \<open>catch\<close>.
\<close>

definition consolidate_attempt ::
  "('n page_body fetch_call \<Rightarrow> js_exn + 'n page_response) \<Rightarrow> 'n page_state \<Rightarrow>
   js_exn + 'n ConsolidatedResult" where
  "consolidate_attempt fetch s =
     (case fetch (consolidate_call s) of
        Inl e \<Rightarrow> Inl e
      | Inr res \<Rightarrow>
          if \<not> ok res then
            (case res_text res of
               Inl e \<Rightarrow> Inl e
             | Inr txt \<Rightarrow> Inl (Error_instance (if txt = [] then ''Failed to consolidate'' else txt)))
          else res_json res)"

definition onRun ::
  "('n page_body fetch_call \<Rightarrow> js_exn + 'n page_response) \<Rightarrow> 'n page_state \<Rightarrow> 'n page_run" where
  "onRun fetch s =
     (let s1 = s\<lparr>error := None, loading := True\<rparr>;
          s2 = (case consolidate_attempt fetch s of
                  Inr data \<Rightarrow> s1\<lparr>result := Some data\<rparr>
                | Inl e \<Rightarrow>
                    s1\<lparr>error := Some (case e of Error_instance message \<Rightarrow> message
                                          | Thrown_value \<Rightarrow> ''Unexpected error'')\<rparr>)
      in \<lparr>state_after = s2\<lparr>loading := False\<rparr>,
          effects = [Fetch (consolidate_call s)],
          uncaught = None\<rparr>)"

definition export_call :: "'n ConsolidatedResult \<Rightarrow> 'n page_body fetch_call" where
  "export_call r =
     \<lparr>url = ''/api/export-xlsx'', http_method = ''POST'',
      headers = [(''Content-Type'', ''application/json'')], body = Page_json r\<rparr>"

definition onDownload ::
  "('n page_body fetch_call \<Rightarrow> js_exn + 'n page_response) \<Rightarrow> 'n page_state \<Rightarrow> 'n page_run" where
  "onDownload fetch s =
     (case result s of
        None \<Rightarrow> \<lparr>state_after = s, effects = [], uncaught = None\<rparr>
      | Some r \<Rightarrow>
          (case fetch (export_call r) of
             Inl e \<Rightarrow> \<lparr>state_after = s, effects = [Fetch (export_call r)], uncaught = Some e\<rparr>
           | Inr res \<Rightarrow>
               if \<not> ok res then
                 \<lparr>state_after = s\<lparr>error := Some ''Export failed''\<rparr>,
                  effects = [Fetch (export_call r)], uncaught = None\<rparr>
               else
                 (case res_blob res of
                    Inl e \<Rightarrow>
                      \<lparr>state_after = s, effects = [Fetch (export_call r)], uncaught = Some e\<rparr>
                  | Inr blob \<Rightarrow>
                      \<lparr>state_after = s,
                       effects = [Fetch (export_call r), Save_file ''consolidated.xlsx'' blob],
                       uncaught = None\<rparr>)))"

text \<open>
  \<open>{ ...rows[index] }\<close>: the fields of the object in the slot, none when the index is
  past the end or the slot holds no object.
\<close>

definition spread_slot :: "'n row option list \<Rightarrow> nat \<Rightarrow> 'n row" where
  "spread_slot rs index =
     (if index < length rs then (case rs ! index of None \<Rightarrow> Map.empty | Some r \<Rightarrow> r)
      else Map.empty)"

text \<open>
  \<open>rows[index] = row\<close>: an assignment past the end grows the array, and the slots in
  between hold nothing.
\<close>

definition assign_slot :: "'n row option list \<Rightarrow> nat \<Rightarrow> 'n row \<Rightarrow> 'n row option list" where
  "assign_slot rs index r =
     (if index < length rs then rs[index := Some r]
      else rs @ replicate (index - length rs) None @ [Some r])"

text \<open>The function \<open>updateRow\<close> passes to \<open>setResult\<close>.\<close>

definition updated_result ::
  "(string \<Rightarrow> 'n) \<Rightarrow> nat \<Rightarrow> row_key \<Rightarrow> string \<Rightarrow> 'n ConsolidatedResult option \<Rightarrow>
   'n ConsolidatedResult option" where
  "updated_result Number index key v prev =
     (case prev of
        None \<Rightarrow> None
      | Some p \<Rightarrow>
          (let row = spread_slot (rows p) index;
               row' = (if key \<in> set numFields
                       then row(key \<mapsto> (if v = [] then Null else Num (Number v)))
                       else row(key \<mapsto> (if v = [] then Null else Str v)))
           in Some (p\<lparr>rows := assign_slot (rows p) index row'\<rparr>)))"

definition updateRow ::
  "(string \<Rightarrow> 'n) \<Rightarrow> nat \<Rightarrow> row_key \<Rightarrow> string \<Rightarrow> 'n page_state \<Rightarrow> 'n page_run" where
  "updateRow Number index key v s =
     \<lparr>state_after = s\<lparr>result := updated_result Number index key v (result s)\<rparr>,
      effects = [], uncaught = None\<rparr>"

text \<open>Line 140: the section with the download button is rendered when \<open>result\<close> is truthy.\<close>

definition download_button_rendered :: "'n page_state \<Rightarrow> bool" where
  "download_button_rendered s = (result s \<noteq> None)"

section \<open>Concrete inputs\<close>

text \<open>
  A multipart body with the one text part \<open>coa_csv\<close>, written with the given boundary,
  and the request that carries it: whatever the boundary, \<open>req.formData()\<close> resolves to
  the same single entry.
\<close>

definition CRLF :: string where
  "CRLF = [CHR 0x0D, CHR 0x0A]"

definition multipart_coa :: "string \<Rightarrow> bytes" where
  "multipart_coa boundary =
     ''--'' @ boundary @ CRLF @
     ''Content-Disposition: form-data; name='' @ [CHR 0x22] @ ''coa_csv'' @ [CHR 0x22] @ CRLF @
     CRLF @ ''1000,Cash'' @ CRLF @
     ''--'' @ boundary @ ''--'' @ CRLF"

definition submission :: "string \<Rightarrow> next_request" where
  "submission boundary =
     \<lparr>raw_body = multipart_coa boundary,
      req_formData = Inr [(''coa_csv'', Text_value ''1000,Cash'')],
      req_text = Inr (multipart_coa boundary)\<rparr>"

text \<open>A request with a JSON body; \<open>req.formData()\<close> rejects on it.\<close>

definition export_request :: next_request where
  "export_request =
     \<lparr>raw_body = ''{}'',
      req_formData = Inl (Error_instance ''TypeError: Failed to parse body as FormData.''),
      req_text = Inr ''{}''\<rparr>"

text \<open>A \<open>fetch\<close> that rejects every call, and one that resolves every call to one response.\<close>

definition fetch_rejects :: "js_exn \<Rightarrow> 'c \<Rightarrow> js_exn + 'r" where
  "fetch_rejects e = (\<lambda>call. Inl e)"

definition fetch_resolves :: "'r \<Rightarrow> 'c \<Rightarrow> js_exn + 'r" where
  "fetch_resolves r = (\<lambda>call. Inr r)"

definition backend_replies :: "nat \<Rightarrow> (string \<times> string) list \<Rightarrow> bytes \<Rightarrow> backend_response" where
  "backend_replies st hs b = \<lparr>status = st, headers_get = map_of hs, arrayBuffer = Inr b\<rparr>"

text \<open>A reply to the page whose body is plain text, not JSON.\<close>

definition text_reply :: "nat \<Rightarrow> string \<Rightarrow> real page_response" where
  "text_reply st txt =
     \<lparr>page_status = st, res_text = Inr txt,
      res_json = Inl (Error_instance ''SyntaxError: Unexpected token''), res_blob = Inr txt\<rparr>"

text \<open>A conversion of strings to numbers that is right on the one string it is used on.\<close>

definition example_Number :: "string \<Rightarrow> real" where
  "example_Number s = (if s = ''1234.5'' then 1234.5 else 0)"

definition example_row :: "real row" where
  "example_row =
     [account_number \<mapsto> Null, account_name \<mapsto> Str ''Cash'', y2022 \<mapsto> Num 10,
      y2023 \<mapsto> Null, y2024 \<mapsto> Null, ttm \<mapsto> Null, mapped_coa_code \<mapsto> Str ''1000'',
      mapped_coa_name \<mapsto> Str ''Cash'', mapping_confidence \<mapsto> Num 1, confidence \<mapsto> Num 1,
      notes_field \<mapsto> Str ''checked'']"

definition example_result :: "real ConsolidatedResult" where
  "example_result =
     \<lparr>meta = \<lparr>units = Some ''USD'', ttm_present = False, warnings = [''OCR used'']\<rparr>,
      rows = [Some example_row, Some example_row]\<rparr>"

definition example_file :: js_file where
  "example_file =
     \<lparr>file_name = ''statement.pdf'', file_type = ''application/pdf'', file_bytes = ''%PDF''\<rparr>"

definition idle_page :: "real page_state" where
  "idle_page =
     \<lparr>files = [example_file], coaText = ''1000,Cash'', result = None,
      loading = False, error = None\<rparr>"

definition result_page :: "real page_state" where
  "result_page = idle_page\<lparr>result := Some example_result\<rparr>"

section \<open>Properties of the proxy routes\<close>

lemma or_else_simps:
  "or_else None d = d"
  "or_else (Some []) d = d"
  "s \<noteq> [] \<Longrightarrow> or_else (Some s) d = s"
  by (simp_all add: or_else_def)

lemma consolidate_calls:
  "req_formData req = Inr form \<Longrightarrow>
   calls (POST_consolidate env fetch req) =
     [\<lparr>url = or_else (env ''BACKEND_INTERNAL_URL'') ''http://127.0.0.1:8000'' @ ''/api/consolidate'',
       http_method = ''POST'', headers = [], body = Form_body form\<rparr>]"
  by (simp add: POST_consolidate_def Let_def)

lemma export_calls:
  "req_text req = Inr txt \<Longrightarrow>
   calls (POST_export env fetch req) =
     [\<lparr>url = or_else (env ''BACKEND_INTERNAL_URL'') ''http://127.0.0.1:8000'' @ ''/api/export-xlsx'',
       http_method = ''POST'', headers = [(''Content-Type'', ''application/json'')],
       body = Text_body txt\<rparr>]"
  by (simp add: POST_export_def Let_def)

text \<open>A handler whose request cannot be read makes no call at all.\<close>

lemma no_call_without_body:
  "req_formData req = Inl e \<Longrightarrow> POST_consolidate env fetch req = \<lparr>calls = [], answer = Inl e\<rparr>"
  "req_text req = Inl e \<Longrightarrow> POST_export env fetch req = \<lparr>calls = [], answer = Inl e\<rparr>"
  by (simp_all add: POST_consolidate_def POST_export_def)

lemma new_NextResponse_Inr:
  "new_NextResponse raw st hs = Inr r \<longleftrightarrow>
     200 \<le> st \<and> st \<le> 599 \<and> \<not> null_body_status st \<and>
     r = \<lparr>res_body = raw, res_status = st, res_headers = hs\<rparr>"
  by (auto simp: new_NextResponse_def)

lemma consolidate_answer:
  assumes "calls (POST_consolidate env fetch req) = [c]" and "fetch c = Inr response"
  shows "answer (POST_consolidate env fetch req) =
           (case arrayBuffer response of
              Inl e \<Rightarrow> Inl e
            | Inr raw \<Rightarrow>
                new_NextResponse raw (status response)
                  [(''content-type'',
                    or_else (headers_get response ''content-type'') ''application/json'')])"
  using assms by (auto simp: POST_consolidate_def Let_def split: sum.splits)

lemma export_answer:
  assumes "calls (POST_export env fetch req) = [c]" and "fetch c = Inr response"
  shows "answer (POST_export env fetch req) =
           (case arrayBuffer response of
              Inl e \<Rightarrow> Inl e
            | Inr raw \<Rightarrow>
                new_NextResponse raw (status response)
                  [(''content-type'',
                    or_else (headers_get response ''content-type'')
                      ''application/vnd.openxmlformats-officedocument.spreadsheetml.sheet''),
                   (''content-disposition'',
                    or_else (headers_get response ''content-disposition'')
                      (''attachment; filename='' @ [CHR 0x22] @ ''consolidated.xlsx''
                         @ [CHR 0x22]))])"
  using assms by (auto simp: POST_export_def Let_def split: sum.splits)

subsection \<open>What the consolidate route forwards\<close>

text \<open>
  C1, as amended. For every submission that \<open>req.formData()\<close> can parse, the consolidate
  route makes one \<open>POST\<close> to the backend's \<open>/api/consolidate\<close> whose body is the
  parsed form itself: the same entries in the same order, so every file part and the
  \<open>coa_csv\<close> text part as they were parsed. The call is a function of the parsed form
  alone: any other request that parses to the same form is forwarded as the same call,
  whatever its bytes are.
\<close>

theorem consolidate_forwards_form:
  assumes "req_formData req = Inr form"
  shows "\<exists>c. calls (POST_consolidate env fetch req) = [c] \<and>
              url c = or_else (env ''BACKEND_INTERNAL_URL'') ''http://127.0.0.1:8000''
                        @ ''/api/consolidate'' \<and>
              http_method c = ''POST'' \<and>
              body c = Form_body form \<and>
              (\<forall>req' fetch'. req_formData req' = Inr form \<longrightarrow>
                 calls (POST_consolidate env fetch' req') = [c])"
  using assms by (simp add: consolidate_calls)

theorem consolidate_forwards_form_witness:
  "\<exists>c. calls (POST_consolidate Map.empty (fetch_rejects Thrown_value) (submission ''A'')) = [c] \<and>
        url c = ''http://127.0.0.1:8000/api/consolidate'' \<and>
        http_method c = ''POST'' \<and>
        body c = Form_body [(''coa_csv'', Text_value ''1000,Cash'')] \<and>
        calls (POST_consolidate Map.empty (fetch_rejects Thrown_value) (submission ''B'')) = [c]"
proof -
  have a: "req_formData (submission ''A'') = Inr [(''coa_csv'', Text_value ''1000,Cash'')]"
    and b: "req_formData (submission ''B'') = Inr [(''coa_csv'', Text_value ''1000,Cash'')]"
    by (simp_all add: submission_def)
  from consolidate_forwards_form [OF a, of Map.empty "fetch_rejects Thrown_value"] b
  show ?thesis
    by (auto simp: or_else_simps)
qed

text \<open>
  C1 as stated fails: the route never reads the bytes it received. Two submissions of the
  same \<open>coa_csv\<close> text whose bodies differ (in the multipart boundary) lead to one and the
  same call of \<open>fetch\<close>, whose body is the \<open>FormData\<close> object and not a byte sequence; the
  request to the backend is encoded anew from it and cannot equal both bodies.
\<close>

theorem consolidate_bytes_counterexample:
  "calls (POST_consolidate Map.empty (fetch_rejects Thrown_value) (submission ''A'')) =
     calls (POST_consolidate Map.empty (fetch_rejects Thrown_value) (submission ''B'')) \<and>
   map body (calls (POST_consolidate Map.empty (fetch_rejects Thrown_value) (submission ''A''))) =
     [Form_body [(''coa_csv'', Text_value ''1000,Cash'')]] \<and>
   raw_body (submission ''A'') \<noteq> raw_body (submission ''B'')"
  by (simp add: POST_consolidate_def Let_def submission_def multipart_coa_def)

subsection \<open>What the routes relay\<close>

text \<open>
  When the backend's status is one the \<open>Response\<close> constructor accepts with a body, both
  routes answer with that status and with the bytes of the backend's body.
\<close>

lemma proxies_relay_status_and_body:
  assumes "fetch c = Inr response" and "arrayBuffer response = Inr raw"
    and "200 \<le> status response" and "status response \<le> 599"
    and "\<not> null_body_status (status response)"
  shows "calls (POST_consolidate env fetch req) = [c] \<Longrightarrow>
           \<exists>r. answer (POST_consolidate env fetch req) = Inr r \<and>
                res_status r = status response \<and> res_body r = raw"
    and "calls (POST_export env fetch req) = [c] \<Longrightarrow>
           \<exists>r. answer (POST_export env fetch req) = Inr r \<and>
                res_status r = status response \<and> res_body r = raw"
  using assms by (simp_all add: consolidate_answer export_answer new_NextResponse_def)

text \<open>
  C2 at a backend response \<open>204 No Content\<close>: neither route answers with status 204. The
  empty \<open>ArrayBuffer\<close> is a body, the constructor of the response throws, and the handler
  is rejected.
\<close>

theorem proxies_reject_no_content:
  "answer (POST_consolidate Map.empty (fetch_resolves (backend_replies 204 [] []))
             (submission ''A''))
     = Inl (Error_instance ''TypeError: Response constructor: Invalid response status code'') \<and>
   answer (POST_export Map.empty (fetch_resolves (backend_replies 204 [] [])) export_request)
     = Inl (Error_instance ''TypeError: Response constructor: Invalid response status code'')"
  by (simp add: POST_consolidate_def POST_export_def Let_def fetch_resolves_def
        backend_replies_def submission_def export_request_def new_NextResponse_def
        null_body_status_def)

text \<open>
  C3, as amended. In every response the export route returns, the headers are
  \<open>content-type\<close> and \<open>content-disposition\<close>; each is the backend's value when the
  backend supplies a non-empty one, and the default when the backend supplies none or an
  empty one: \<open>attachment; filename="consolidated.xlsx"\<close> and the OOXML spreadsheet type.
\<close>

theorem export_headers:
  assumes "calls (POST_export env fetch req) = [c]" and "fetch c = Inr response"
    and "answer (POST_export env fetch req) = Inr r"
  shows "map fst (res_headers r) = [''content-type'', ''content-disposition''] \<and>
         (headers_get response ''content-disposition'' = None \<or>
          headers_get response ''content-disposition'' = Some [] \<longrightarrow>
            map_of (res_headers r) ''content-disposition'' =
              Some (''attachment; filename='' @ [CHR 0x22] @ ''consolidated.xlsx'' @ [CHR 0x22])) \<and>
         (\<forall>v. headers_get response ''content-disposition'' = Some v \<and> v \<noteq> [] \<longrightarrow>
            map_of (res_headers r) ''content-disposition'' = Some v) \<and>
         (headers_get response ''content-type'' = None \<or>
          headers_get response ''content-type'' = Some [] \<longrightarrow>
            map_of (res_headers r) ''content-type'' =
              Some ''application/vnd.openxmlformats-officedocument.spreadsheetml.sheet'') \<and>
         (\<forall>v. headers_get response ''content-type'' = Some v \<and> v \<noteq> [] \<longrightarrow>
            map_of (res_headers r) ''content-type'' = Some v)"
proof -
  from assms obtain raw where r: "r = \<lparr>res_body = raw, res_status = status response,
      res_headers =
        [(''content-type'',
          or_else (headers_get response ''content-type'')
            ''application/vnd.openxmlformats-officedocument.spreadsheetml.sheet''),
         (''content-disposition'',
          or_else (headers_get response ''content-disposition'')
            (''attachment; filename='' @ [CHR 0x22] @ ''consolidated.xlsx'' @ [CHR 0x22]))]\<rparr>"
    by (auto simp: export_answer new_NextResponse_Inr split: sum.splits)
  show ?thesis
    unfolding r by (auto simp: or_else_simps)
qed

theorem export_headers_witness:
  "(\<exists>r. answer (POST_export Map.empty (fetch_resolves (backend_replies 200 [] ''PK''))
                  export_request) = Inr r \<and>
        map_of (res_headers r) ''content-disposition'' =
          Some (''attachment; filename='' @ [CHR 0x22] @ ''consolidated.xlsx'' @ [CHR 0x22]) \<and>
        map_of (res_headers r) ''content-type'' =
          Some ''application/vnd.openxmlformats-officedocument.spreadsheetml.sheet'') \<and>
   (\<exists>r. answer (POST_export Map.empty
                  (fetch_resolves (backend_replies 200
                     [(''content-type'', ''application/zip''),
                      (''content-disposition'', ''attachment; filename=q3.xlsx'')] ''PK''))
                  export_request) = Inr r \<and>
        map_of (res_headers r) ''content-disposition'' = Some ''attachment; filename=q3.xlsx'' \<and>
        map_of (res_headers r) ''content-type'' = Some ''application/zip'')"
proof -
  let ?none = "backend_replies 200 [] ''PK''"
  let ?both = "backend_replies 200
                 [(''content-type'', ''application/zip''),
                  (''content-disposition'', ''attachment; filename=q3.xlsx'')] ''PK''"
  have t: "req_text export_request = Inr ''{}''"
    by (simp add: export_request_def)
  obtain r1 where a1: "answer (POST_export Map.empty (fetch_resolves ?none) export_request) = Inr r1"
    by (simp add: export_answer [OF export_calls [OF t]] fetch_resolves_def backend_replies_def
          new_NextResponse_def null_body_status_def)
  obtain r2 where a2: "answer (POST_export Map.empty (fetch_resolves ?both) export_request) = Inr r2"
    by (simp add: export_answer [OF export_calls [OF t]] fetch_resolves_def backend_replies_def
          new_NextResponse_def null_body_status_def)
  have h1: "headers_get ?none ''content-disposition'' = None"
           "headers_get ?none ''content-type'' = None"
    by (simp_all add: backend_replies_def)
  have h2: "headers_get ?both ''content-disposition'' = Some ''attachment; filename=q3.xlsx''"
           "headers_get ?both ''content-type'' = Some ''application/zip''"
    by (simp_all add: backend_replies_def)
  from export_headers [OF export_calls [OF t] _ a1, of ?none] h1
  have p1: "map_of (res_headers r1) ''content-disposition'' =
              Some (''attachment; filename='' @ [CHR 0x22] @ ''consolidated.xlsx'' @ [CHR 0x22]) \<and>
            map_of (res_headers r1) ''content-type'' =
              Some ''application/vnd.openxmlformats-officedocument.spreadsheetml.sheet''"
    by (simp add: fetch_resolves_def)
  from export_headers [OF export_calls [OF t] _ a2, of ?both] h2
  have p2: "map_of (res_headers r2) ''content-disposition'' = Some ''attachment; filename=q3.xlsx'' \<and>
            map_of (res_headers r2) ''content-type'' = Some ''application/zip''"
    by (simp add: fetch_resolves_def)
  from a1 p1 a2 p2 show ?thesis by blast
qed

text \<open>
  C3 as stated fails where the backend supplies a header whose value is empty: the route
  does not relay the empty value, it sends the default.
\<close>

theorem export_headers_counterexample:
  "headers_get (backend_replies 200 [(''content-disposition'', [])] ''PK'') ''content-disposition''
     = Some [] \<and>
   answer (POST_export Map.empty
             (fetch_resolves (backend_replies 200 [(''content-disposition'', [])] ''PK''))
             export_request) =
     Inr \<lparr>res_body = ''PK'', res_status = 200,
          res_headers =
            [(''content-type'', ''application/vnd.openxmlformats-officedocument.spreadsheetml.sheet''),
             (''content-disposition'',
              ''attachment; filename='' @ [CHR 0x22] @ ''consolidated.xlsx'' @ [CHR 0x22])]\<rparr>"
  by (simp add: POST_export_def Let_def fetch_resolves_def backend_replies_def export_request_def
        new_NextResponse_def null_body_status_def or_else_def)

subsection \<open>The backend origin\<close>

text \<open>
  C8. Each route sends its request to \<open>BACKEND_INTERNAL_URL\<close> followed by the route's
  path when the variable is set and not empty, and to \<open>http://127.0.0.1:8000\<close> followed by
  the path when it is unset or empty.
\<close>

theorem backend_origin:
  assumes "req_formData req = Inr form" and "req_text req' = Inr txt"
  shows "(env ''BACKEND_INTERNAL_URL'' = Some v \<and> v \<noteq> [] \<longrightarrow>
            map url (calls (POST_consolidate env fetch req)) = [v @ ''/api/consolidate''] \<and>
            map url (calls (POST_export env fetch' req')) = [v @ ''/api/export-xlsx'']) \<and>
         (env ''BACKEND_INTERNAL_URL'' = None \<or> env ''BACKEND_INTERNAL_URL'' = Some [] \<longrightarrow>
            map url (calls (POST_consolidate env fetch req)) =
              [''http://127.0.0.1:8000/api/consolidate''] \<and>
            map url (calls (POST_export env fetch' req')) =
              [''http://127.0.0.1:8000/api/export-xlsx''])"
  using assms by (auto simp: consolidate_calls export_calls or_else_simps)

theorem backend_origin_witness:
  "map url (calls (POST_consolidate [''BACKEND_INTERNAL_URL'' \<mapsto> ''http://backend:9000'']
                     (fetch_rejects Thrown_value) (submission ''A'')))
     = [''http://backend:9000/api/consolidate''] \<and>
   map url (calls (POST_export [''BACKEND_INTERNAL_URL'' \<mapsto> ''http://backend:9000'']
                     (fetch_rejects Thrown_value) export_request))
     = [''http://backend:9000/api/export-xlsx''] \<and>
   map url (calls (POST_consolidate Map.empty (fetch_rejects Thrown_value) (submission ''A'')))
     = [''http://127.0.0.1:8000/api/consolidate''] \<and>
   map url (calls (POST_export [''BACKEND_INTERNAL_URL'' \<mapsto> []] (fetch_rejects Thrown_value)
                     export_request))
     = [''http://127.0.0.1:8000/api/export-xlsx'']"
proof -
  have f: "req_formData (submission ''A'') = Inr [(''coa_csv'', Text_value ''1000,Cash'')]"
    by (simp add: submission_def)
  have t: "req_text export_request = Inr ''{}''"
    by (simp add: export_request_def)
  show ?thesis
    using
      backend_origin [OF f t, where env = "[''BACKEND_INTERNAL_URL'' \<mapsto> ''http://backend:9000'']"
        and v = "''http://backend:9000''" and fetch = "fetch_rejects Thrown_value"
        and fetch' = "fetch_rejects Thrown_value"]
      backend_origin [OF f t, where env = Map.empty and v = "[]"
        and fetch = "fetch_rejects Thrown_value" and fetch' = "fetch_rejects Thrown_value"]
      backend_origin [OF f t, where env = "[''BACKEND_INTERNAL_URL'' \<mapsto> []]" and v = "[]"
        and fetch = "fetch_rejects Thrown_value" and fetch' = "fetch_rejects Thrown_value"]
    by simp
qed

section \<open>Properties of the page\<close>

subsection \<open>Editing a cell\<close>

lemma length_assign_slot:
  "index < length rs \<Longrightarrow> length (assign_slot rs index r) = length rs"
  by (simp add: assign_slot_def)

lemma nth_assign_slot:
  "index < length rs \<Longrightarrow> j < length rs \<Longrightarrow>
   assign_slot rs index r ! j = (if j = index then Some r else rs ! j)"
  by (simp add: assign_slot_def nth_list_update)

lemma spread_assign_slot:
  "index < length rs \<Longrightarrow> spread_slot (assign_slot rs index r) index = r"
  by (simp add: spread_slot_def assign_slot_def)

text \<open>Without a result there is nothing to edit: the state stays as it is.\<close>

lemma updateRow_no_result:
  "result s = None \<Longrightarrow> state_after (updateRow Number index key v s) = s"
  by (simp add: updateRow_def updated_result_def)

text \<open>
  C4. An edit of a row of the result stores in the edited field: \<open>null\<close> when the input
  is the empty string; otherwise \<open>Number(input)\<close> when the field is one of \<open>y2022\<close>,
  \<open>y2023\<close>, \<open>y2024\<close>, \<open>ttm\<close>, \<open>mapping_confidence\<close>, \<open>confidence\<close>, and the input
  string itself for every other field.
\<close>

theorem updateRow_coerces:
  assumes "result s = Some p" and "index < length (rows p)"
  shows "\<exists>p' r'. result (state_after (updateRow Number index key v s)) = Some p' \<and>
           rows p' ! index = Some r' \<and>
           r' key = Some (if v = [] then Null
                          else if key \<in> {y2022, y2023, y2024, ttm, mapping_confidence, confidence}
                               then Num (Number v) else Str v)"
  using assms
  by (auto simp: updateRow_def updated_result_def Let_def numFields_def nth_assign_slot)

theorem updateRow_coerces_witness:
  "(\<exists>p' r'. result (state_after (updateRow example_Number 0 y2023 ''1234.5'' result_page)) = Some p' \<and>
      rows p' ! 0 = Some r' \<and> r' y2023 = Some (Num 1234.5)) \<and>
   (\<exists>p' r'. result (state_after (updateRow example_Number 0 y2022 [] result_page)) = Some p' \<and>
      rows p' ! 0 = Some r' \<and> r' y2022 = Some Null) \<and>
   (\<exists>p' r'. result (state_after (updateRow example_Number 1 notes_field ''see page 3'' result_page))
        = Some p' \<and>
      rows p' ! 1 = Some r' \<and> r' notes_field = Some (Str ''see page 3'')) \<and>
   (\<exists>p' r'. result (state_after (updateRow example_Number 1 notes_field [] result_page)) = Some p' \<and>
      rows p' ! 1 = Some r' \<and> r' notes_field = Some Null)"
proof -
  have r: "result result_page = Some example_result"
    by (simp add: result_page_def)
  have l0: "0 < length (rows example_result)" and l1: "1 < length (rows example_result)"
    by (simp_all add: example_result_def)
  show ?thesis
    using
      updateRow_coerces [OF r l0, where Number = example_Number and key = y2023 and v = "''1234.5''"]
      updateRow_coerces [OF r l0, where Number = example_Number and key = y2022 and v = "[]"]
      updateRow_coerces [OF r l1, where Number = example_Number and key = notes_field
        and v = "''see page 3''"]
      updateRow_coerces [OF r l1, where Number = example_Number and key = notes_field and v = "[]"]
    by (simp add: example_Number_def)
qed

text \<open>
  C5. An edit of row \<open>index\<close> of the result, at field \<open>key\<close>, leaves the rest of the state
  as it was: the meta record, the number of rows, every other row, every other field of
  the edited row, and the files, the COA text, the loading flag and the error message.
  It calls \<open>fetch\<close> not once and throws nothing.
\<close>

theorem updateRow_frame:
  assumes "result s = Some p" and "index < length (rows p)"
  shows "\<exists>p'. state_after (updateRow Number index key v s) = s\<lparr>result := Some p'\<rparr> \<and>
           meta p' = meta p \<and>
           length (rows p') = length (rows p) \<and>
           (\<forall>j < length (rows p). j \<noteq> index \<longrightarrow> rows p' ! j = rows p ! j) \<and>
           (\<forall>k. k \<noteq> key \<longrightarrow> spread_slot (rows p') index k = spread_slot (rows p) index k) \<and>
           effects (updateRow Number index key v s) = [] \<and>
           uncaught (updateRow Number index key v s) = None"
  using assms
  by (auto simp: updateRow_def updated_result_def Let_def length_assign_slot nth_assign_slot
        spread_assign_slot)

theorem updateRow_frame_witness:
  "\<exists>p'. state_after (updateRow example_Number 0 y2023 ''1234.5'' result_page)
           = result_page\<lparr>result := Some p'\<rparr> \<and>
         meta p' = \<lparr>units = Some ''USD'', ttm_present = False, warnings = [''OCR used'']\<rparr> \<and>
         length (rows p') = 2 \<and>
         rows p' ! 1 = Some example_row \<and>
         spread_slot (rows p') 0 account_name = Some (Str ''Cash'') \<and>
         spread_slot (rows p') 0 y2022 = Some (Num 10) \<and>
         effects (updateRow example_Number 0 y2023 ''1234.5'' result_page) = [] \<and>
         uncaught (updateRow example_Number 0 y2023 ''1234.5'' result_page) = None"
proof -
  have r: "result result_page = Some example_result"
    by (simp add: result_page_def)
  have l: "0 < length (rows example_result)"
    by (simp add: example_result_def)
  from updateRow_frame [OF r l, where Number = example_Number and key = y2023 and v = "''1234.5''"]
  obtain p' where
    st: "state_after (updateRow example_Number 0 y2023 ''1234.5'' result_page)
           = result_page\<lparr>result := Some p'\<rparr>"
    and m: "meta p' = meta example_result"
    and n: "length (rows p') = length (rows example_result)"
    and others: "\<forall>j < length (rows example_result). j \<noteq> 0 \<longrightarrow> rows p' ! j = rows example_result ! j"
    and fields: "\<forall>k. k \<noteq> y2023 \<longrightarrow>
                   spread_slot (rows p') 0 k = spread_slot (rows example_result) 0 k"
    and e: "effects (updateRow example_Number 0 y2023 ''1234.5'' result_page) = []"
    and u: "uncaught (updateRow example_Number 0 y2023 ''1234.5'' result_page) = None"
    by blast
  from others have row1: "rows p' ! 1 = Some example_row"
    by (simp add: example_result_def)
  from fields have name: "spread_slot (rows p') 0 account_name = Some (Str ''Cash'')"
    and y22: "spread_slot (rows p') 0 y2022 = Some (Num 10)"
    by (simp_all add: spread_slot_def example_result_def example_row_def)
  from m have m': "meta p' = \<lparr>units = Some ''USD'', ttm_present = False, warnings = [''OCR used'']\<rparr>"
    by (simp add: example_result_def)
  from n have n': "length (rows p') = 2"
    by (simp add: example_result_def)
  from st m' n' row1 name y22 e u show ?thesis
    by blast
qed

subsection \<open>Running a consolidation\<close>

text \<open>
  C10. A consolidate attempt fails when \<open>fetch\<close> throws, when the response is not ok, or
  when the body of an ok response does not parse as JSON. After every failed attempt the
  state is the one before it with an error message set and the loading flag off: the
  result, present or absent, is the one that was there.
\<close>

theorem failed_run_keeps_result:
  assumes "(\<exists>e. fetch (consolidate_call s) = Inl e) \<or>
           (\<exists>res. fetch (consolidate_call s) = Inr res \<and>
                  (\<not> ok res \<or> (\<exists>e. res_json res = Inl e)))"
  shows "result (state_after (onRun fetch s)) = result s \<and>
         (\<exists>m. state_after (onRun fetch s) = s\<lparr>error := Some m, loading := False\<rparr>)"
  using assms
  by (auto simp: onRun_def consolidate_attempt_def Let_def split: sum.splits js_exn.splits)

theorem failed_run_keeps_result_witness:
  "result (state_after (onRun (fetch_rejects (Error_instance ''Failed to fetch'')) result_page))
     = Some example_result \<and>
   (\<exists>m. state_after (onRun (fetch_rejects (Error_instance ''Failed to fetch'')) result_page)
          = result_page\<lparr>error := Some m, loading := False\<rparr>) \<and>
   result (state_after (onRun (fetch_resolves (text_reply 500 ''Internal Server Error'')) idle_page))
     = None \<and>
   (\<exists>m. state_after (onRun (fetch_resolves (text_reply 500 ''Internal Server Error'')) idle_page)
          = idle_page\<lparr>error := Some m, loading := False\<rparr>) \<and>
   result (state_after (onRun (fetch_resolves (text_reply 200 ''not json'')) result_page))
     = Some example_result"
proof -
  have a: "\<exists>e. fetch_rejects (Error_instance ''Failed to fetch'') (consolidate_call result_page)
             = (Inl e :: js_exn + real page_response)"
    by (simp add: fetch_rejects_def)
  have b: "\<exists>res. fetch_resolves (text_reply 500 ''Internal Server Error'') (consolidate_call idle_page)
               = Inr res \<and> (\<not> ok res \<or> (\<exists>e. res_json res = Inl e))"
    by (simp add: fetch_resolves_def text_reply_def ok_def)
  have c: "\<exists>res. fetch_resolves (text_reply 200 ''not json'') (consolidate_call result_page)
               = Inr res \<and> (\<not> ok res \<or> (\<exists>e. res_json res = Inl e))"
    by (simp add: fetch_resolves_def text_reply_def ok_def)
  from
    failed_run_keeps_result [where fetch = "fetch_rejects (Error_instance ''Failed to fetch'')"
      and s = result_page, OF disjI1 [OF a]]
    failed_run_keeps_result [where fetch = "fetch_resolves (text_reply 500 ''Internal Server Error'')"
      and s = idle_page, OF disjI2 [OF b]]
    failed_run_keeps_result [where fetch = "fetch_resolves (text_reply 200 ''not json'')"
      and s = result_page, OF disjI2 [OF c]]
  show ?thesis
    by (simp add: result_page_def idle_page_def)
qed

text \<open>
  C6, as amended. When \<open>fetch\<close> throws in a consolidate attempt, the message shown is the
  thrown exception's own message when it is an instance of \<open>Error\<close>, and
  \<open>Unexpected error\<close> when any other value was thrown.
\<close>

theorem run_fetch_throws:
  assumes "fetch (consolidate_call s) = Inl e"
  shows "(\<forall>message. e = Error_instance message \<longrightarrow>
            error (state_after (onRun fetch s)) = Some message) \<and>
         (e = Thrown_value \<longrightarrow> error (state_after (onRun fetch s)) = Some ''Unexpected error'')"
  using assms by (simp add: onRun_def consolidate_attempt_def)

theorem run_fetch_throws_witness:
  "error (state_after (onRun (fetch_rejects (Error_instance ''Load failed'')) idle_page))
     = Some ''Load failed'' \<and>
   error (state_after (onRun (fetch_rejects Thrown_value) idle_page)) = Some ''Unexpected error''"
proof -
  have a: "fetch_rejects (Error_instance ''Load failed'') (consolidate_call idle_page)
             = (Inl (Error_instance ''Load failed'') :: js_exn + real page_response)"
    and b: "fetch_rejects Thrown_value (consolidate_call idle_page)
             = (Inl Thrown_value :: js_exn + real page_response)"
    by (simp_all add: fetch_rejects_def)
  from
    run_fetch_throws [where fetch = "fetch_rejects (Error_instance ''Load failed'')"
      and s = idle_page, OF a]
    run_fetch_throws [where fetch = "fetch_rejects Thrown_value" and s = idle_page, OF b]
  show ?thesis
    by simp
qed

text \<open>
  C6 as stated fails: a network failure makes \<open>fetch\<close> reject with a \<open>TypeError\<close>, an
  instance of \<open>Error\<close>, and the message shown is that error's message.
\<close>

theorem run_fetch_throws_counterexample:
  "error (state_after (onRun (fetch_rejects (Error_instance ''Failed to fetch'')) idle_page))
     = Some ''Failed to fetch'' \<and>
   error (state_after (onRun (fetch_rejects (Error_instance ''Failed to fetch'')) idle_page))
     \<noteq> Some ''Unexpected error''"
  by (simp add: onRun_def consolidate_attempt_def fetch_rejects_def idle_page_def)

subsection \<open>Downloading\<close>

text \<open>
  C9. Without a result the download handler does nothing: no call of \<open>fetch\<close>, no change
  of state, and the button that triggers it is not rendered. Every call of \<open>fetch\<close> the
  handler makes is the export call for the result in the state.
\<close>

theorem download_needs_result:
  "(result s = None \<longrightarrow>
      onDownload fetch s = \<lparr>state_after = s, effects = [], uncaught = None\<rparr> \<and>
      \<not> download_button_rendered s) \<and>
   (\<forall>c. Fetch c \<in> set (effects (onDownload fetch s)) \<longrightarrow>
      (\<exists>r. result s = Some r \<and> c = export_call r))"
  by (auto simp: onDownload_def download_button_rendered_def
           split: option.splits sum.splits if_splits)

theorem download_needs_result_witness:
  "onDownload (fetch_rejects Thrown_value) idle_page =
     \<lparr>state_after = idle_page, effects = [], uncaught = None\<rparr> \<and>
   \<not> download_button_rendered idle_page \<and>
   Fetch (export_call example_result)
     \<in> set (effects (onDownload (fetch_rejects Thrown_value) result_page)) \<and>
   (\<exists>r. result result_page = Some r \<and> export_call example_result = export_call r)"
proof -
  have n: "result idle_page = None"
    by (simp add: idle_page_def)
  have f: "Fetch (export_call example_result)
             \<in> set (effects (onDownload (fetch_rejects Thrown_value) result_page))"
    by (simp add: onDownload_def result_page_def fetch_rejects_def)
  from download_needs_result [of idle_page "fetch_rejects Thrown_value"] n
  have a: "onDownload (fetch_rejects Thrown_value) idle_page =
             \<lparr>state_after = idle_page, effects = [], uncaught = None\<rparr> \<and>
           \<not> download_button_rendered idle_page"
    by blast
  from download_needs_result [of result_page "fetch_rejects Thrown_value"] f
  have b: "\<exists>r. result result_page = Some r \<and> export_call example_result = export_call r"
    by blast
  from a f b show ?thesis by blast
qed

text \<open>
  An export that the proxy answers with a status outside 200..299 sets the message
  \<open>Export failed\<close>, whatever the status and the body are.
\<close>

lemma download_not_ok:
  assumes "result s = Some r" and "fetch (export_call r) = Inr res" and "\<not> ok res"
  shows "onDownload fetch s =
           \<lparr>state_after = s\<lparr>error := Some ''Export failed''\<rparr>,
            effects = [Fetch (export_call r)], uncaught = None\<rparr>"
  using assms by (simp add: onDownload_def)

text \<open>
  C7 at an export whose \<open>fetch\<close> throws: the exception leaves \<open>onDownload\<close> uncaught and
  the state is untouched, so no message is shown.
\<close>

theorem download_fetch_throws:
  "onDownload (fetch_rejects (Error_instance ''Failed to fetch'')) result_page =
     \<lparr>state_after = result_page, effects = [Fetch (export_call example_result)],
      uncaught = Some (Error_instance ''Failed to fetch'')\<rparr> \<and>
   error result_page = None"
  by (simp add: onDownload_def fetch_rejects_def result_page_def idle_page_def)

end
